theory Spec2Isabelle
  imports Main "HOL-Library.Word" "HOL-Library.Signed_Division"
begin

section \<open>The settings application of ZSWatch (settings\_app.c)\<close>

text \<open>
  The file declares a static menu descriptor (two pages of items), one change handler
  per item, and the load callback that the settings subsystem calls at boot for every
  record stored under the prefix \<^verbatim>\<open>settings\<close>. The model keeps the descriptor
  tables and the sequence of calls made to the drivers, the Bluetooth stack, the
  settings store and the console in one record; every function of the source takes that
  record and returns it updated.
\<close>

subsection \<open>Machine integers\<close>

text \<open>
  \<^verbatim>\<open>int32_t\<close> is a 32-bit word, read as two's complement by \<open>sint\<close>.
  Multiplication wraps around (the C standard leaves signed overflow undefined; the
  theorems that depend on a product say where it stays in range). Division in C
  truncates towards zero, which is \<open>sdiv\<close> on the signed readings.
\<close>

type_synonym int32_t = "32 word"

definition c_div :: "int32_t \<Rightarrow> int32_t \<Rightarrow> int32_t" where
  "c_div a b = word_of_int (sint a sdiv sint b)"

text \<open>The errno values of the C library.\<close>

definition ENOENT :: int where
  "ENOENT = 2"

definition EINVAL :: int where
  "EINVAL = 22"

text \<open>\<^verbatim>\<open>BT_ID_DEFAULT\<close> of the Bluetooth stack: the identity 0.\<close>

definition BT_ID_DEFAULT :: nat where
  "BT_ID_DEFAULT = 0"

subsection \<open>The menu descriptor\<close>

text \<open>
  Modelled from the spec: the header \<^verbatim>\<open>settings_ui.h\<close> that declares
  \<^verbatim>\<open>lv_settings_item_t\<close>, \<^verbatim>\<open>lv_settings_page_t\<close> and
  \<^verbatim>\<open>lv_setting_value_t\<close> is not among the sources. The field names are the ones
  the initialisers of the source use; the spec gives the kinds (slider, switch,
  button), the payload of each kind (a slider has integer bounds and an integer initial
  value, a switch a boolean initial value, a button a glyph) and the width of the
  slider value (a 32-bit integer). The union \<^verbatim>\<open>item\<close> is a datatype with one
  constructor per member. The icon macros of the widget toolkit are kept as names.
\<close>

datatype lv_settings_type_t =
  LV_SETTINGS_TYPE_SLIDER | LV_SETTINGS_TYPE_SWITCH | LV_SETTINGS_TYPE_BTN

datatype lv_symbol =
  LV_SYMBOL_SETTINGS | LV_SYMBOL_AUDIO | LV_SYMBOL_TINT | LV_SYMBOL_REFRESH
| LV_SYMBOL_BLUETOOTH | LV_SYMBOL_BACKSPACE | LV_SYMBOL_TRASH | LV_SYMBOL_SHUFFLE
| Literal string

text \<open>The handlers a \<^verbatim>\<open>change_callback\<close> field can point to.\<close>

datatype change_callback_t =
  On_brightness_changed | On_display_on_changed | On_aoa_enable_changed
| On_pairing_enable_changed | On_reset_steps_changed | On_clear_bonded_changed

record slider_t =
  slider_name :: string
  slider_inital_val :: int32_t
  slider_min_val :: int32_t
  slider_max_val :: int32_t

record sw_t =
  sw_name :: string
  sw_inital_val :: bool

record btn_t =
  btn_name :: string
  btn_text :: lv_symbol

datatype item_union = Slider slider_t | Sw sw_t | Btn btn_t

text \<open>A field the initialiser leaves out is a null pointer: \<open>None\<close>.\<close>

record lv_settings_item_t =
  item_type :: lv_settings_type_t
  icon :: "lv_symbol option"
  change_callback :: "change_callback_t option"
  item :: item_union

text \<open>The \<^verbatim>\<open>items\<close> pointer of a page names one of the two item arrays.\<close>

datatype items_ref = General_page_items | Bluetooth_page_items

record lv_settings_page_t =
  page_name :: string
  num_items :: nat
  items :: items_ref

subsection \<open>Calls to the collaborators\<close>

text \<open>
  Every call the file makes to code outside it is recorded, in order, with the values
  of its arguments at the call site. \<open>Settings_save_one\<close> carries the key, the
  \<^verbatim>\<open>int32_t\<close> object whose address is passed, and the length in bytes.
  \<open>Printk\<close> carries the format string and the integer arguments.
\<close>

datatype call =
  Display_control_set_brightness int32_t
| Settings_save_one string int32_t nat
| BleAoaAdvertise int int int
| Ble_comm_set_pairable bool
| Bt_unpair nat "string option"
| Zsw_imu_reset_step_count
| Printk string "int32_t list"

record settings_app =
  general_page_items :: "lv_settings_item_t list"
  bluetooth_page_items :: "lv_settings_item_t list"
  settings_menu :: "lv_settings_page_t list"
  calls :: "call list"

definition do_call :: "call \<Rightarrow> settings_app \<Rightarrow> settings_app" where
  "do_call c st = st\<lparr>calls := calls st @ [c]\<rparr>"

text \<open>The static initialisers of the source (lines 34 to 141), before any call.\<close>

definition general_page_items_init :: "lv_settings_item_t list" where
  "general_page_items_init =
    [\<lparr>item_type = LV_SETTINGS_TYPE_SLIDER, icon = Some LV_SYMBOL_SETTINGS,
      change_callback = Some On_brightness_changed,
      item = Slider \<lparr>slider_name = ''Brightness'', slider_inital_val = 3,
                     slider_min_val = 1, slider_max_val = 10\<rparr>\<rparr>,
     \<lparr>item_type = LV_SETTINGS_TYPE_SWITCH, icon = Some LV_SYMBOL_AUDIO,
      change_callback = None,
      item = Sw \<lparr>sw_name = ''Vibrate on click'', sw_inital_val = True\<rparr>\<rparr>,
     \<lparr>item_type = LV_SETTINGS_TYPE_SWITCH, icon = Some LV_SYMBOL_TINT,
      change_callback = Some On_display_on_changed,
      item = Sw \<lparr>sw_name = ''Display always on'', sw_inital_val = True\<rparr>\<rparr>,
     \<lparr>item_type = LV_SETTINGS_TYPE_BTN, icon = Some LV_SYMBOL_REFRESH,
      change_callback = Some On_reset_steps_changed,
      item = Btn \<lparr>btn_name = ''Reset step counter'', btn_text = LV_SYMBOL_REFRESH\<rparr>\<rparr>]"

definition bluetooth_page_items_init :: "lv_settings_item_t list" where
  "bluetooth_page_items_init =
    [\<lparr>item_type = LV_SETTINGS_TYPE_SWITCH, icon = Some LV_SYMBOL_BLUETOOTH,
      change_callback = Some On_pairing_enable_changed,
      item = Sw \<lparr>sw_name = ''Pairable'', sw_inital_val = False\<rparr>\<rparr>,
     \<lparr>item_type = LV_SETTINGS_TYPE_BTN, icon = Some LV_SYMBOL_BACKSPACE,
      change_callback = Some On_clear_bonded_changed,
      item = Btn \<lparr>btn_name = ''Delete all bonded peers'', btn_text = LV_SYMBOL_TRASH\<rparr>\<rparr>,
     \<lparr>item_type = LV_SETTINGS_TYPE_SWITCH, icon = Some (Literal []),
      change_callback = Some On_aoa_enable_changed,
      item = Sw \<lparr>sw_name = ''AoA'', sw_inital_val = False\<rparr>\<rparr>,
     \<lparr>item_type = LV_SETTINGS_TYPE_SLIDER, icon = Some LV_SYMBOL_SHUFFLE,
      change_callback = None,
      item = Slider \<lparr>slider_name = ''CTE Tx interval'', slider_inital_val = 100,
                     slider_min_val = 1, slider_max_val = 10\<rparr>\<rparr>]"

definition settings_menu_init :: "lv_settings_page_t list" where
  "settings_menu_init =
    [\<lparr>page_name = ''General'', num_items = length general_page_items_init,
      items = General_page_items\<rparr>,
     \<lparr>page_name = ''Bluetooth'', num_items = length bluetooth_page_items_init,
      items = Bluetooth_page_items\<rparr>]"

definition settings_app_init :: settings_app where
  "settings_app_init =
    \<lparr>general_page_items = general_page_items_init,
     bluetooth_page_items = bluetooth_page_items_init,
     settings_menu = settings_menu_init,
     calls = []\<rparr>"

subsection \<open>The change handlers\<close>

text \<open>
  A handler receives the control value and the final flag. The value is a union that
  the handlers read through the member \<^verbatim>\<open>slider\<close> or the member \<^verbatim>\<open>sw\<close>;
  the record has both readings.
\<close>

record lv_setting_value_t =
  slider :: int32_t
  sw :: bool

text \<open>
  Lines 161 to 167. The brightness is the slider value times ten, passed to the display
  and saved; \<^verbatim>\<open>sizeof(value.item.slider)\<close> is 4. The flag \<^verbatim>\<open>final\<close> is not
  read.
\<close>

definition on_brightness_changed ::
  "lv_setting_value_t \<Rightarrow> bool \<Rightarrow> settings_app \<Rightarrow> settings_app" where
  "on_brightness_changed val final st =
    (let st1 = do_call (Display_control_set_brightness (slider val * 10)) st;
         val1 = val\<lparr>slider := slider val * 10\<rparr>
     in do_call (Settings_save_one ''settings/brightness'' (slider val1) 4) st1)"

text \<open>Lines 169 to 172: an empty body.\<close>

definition on_display_on_changed ::
  "lv_setting_value_t \<Rightarrow> bool \<Rightarrow> settings_app \<Rightarrow> settings_app" where
  "on_display_on_changed val final st = st"

text \<open>Lines 174 to 181.\<close>

definition on_aoa_enable_changed ::
  "lv_setting_value_t \<Rightarrow> bool \<Rightarrow> settings_app \<Rightarrow> settings_app" where
  "on_aoa_enable_changed val final st =
    (if sw val then do_call (BleAoaAdvertise 100 100 1) st
     else do_call (BleAoaAdvertise 100 100 0) st)"

text \<open>Lines 183 to 190.\<close>

definition on_pairing_enable_changed ::
  "lv_setting_value_t \<Rightarrow> bool \<Rightarrow> settings_app \<Rightarrow> settings_app" where
  "on_pairing_enable_changed val final st =
    (if sw val then do_call (Ble_comm_set_pairable True) st
     else do_call (Ble_comm_set_pairable False) st)"

text \<open>
  Lines 192 to 201. \<open>bt_unpair\<close> is the Bluetooth stack's answer to the call: it maps
  the identity and the address (\<open>None\<close> for the null pointer) to the error code.
\<close>

definition on_clear_bonded_changed ::
  "(nat \<Rightarrow> string option \<Rightarrow> int) \<Rightarrow> lv_setting_value_t \<Rightarrow> bool \<Rightarrow> settings_app \<Rightarrow> settings_app" where
  "on_clear_bonded_changed bt_unpair val final st =
    (if final then
       (let err = bt_unpair BT_ID_DEFAULT None;
            st1 = do_call (Bt_unpair BT_ID_DEFAULT None) st
        in if err \<noteq> 0 then do_call (Printk ''Cannot unpair for default ID'' []) st1
           else st1)
     else st)"

text \<open>Lines 203 to 208.\<close>

definition on_reset_steps_changed ::
  "lv_setting_value_t \<Rightarrow> bool \<Rightarrow> settings_app \<Rightarrow> settings_app" where
  "on_reset_steps_changed val final st =
    (if final then do_call Zsw_imu_reset_step_count st else st)"

subsection \<open>The load callback\<close>

text \<open>
  \<^verbatim>\<open>settings_name_steq\<close> belongs to the settings subsystem of the operating
  system (Zephyr, subsys/settings/src/settings.c), not to this repository. It walks
  \<open>name\<close> and \<open>key\<close> together while the characters agree and \<open>name\<close> has not reached
  its end, which is the terminating NUL or the character \<^verbatim>\<open>=\<close>
  (\<^verbatim>\<open>SETTINGS_NAME_END\<close>). When \<open>key\<close> is used up, the name matches if it is at
  its end (no remainder: \<^verbatim>\<open>next\<close> stays NULL) or at the separator \<^verbatim>\<open>/\<close>
  (\<^verbatim>\<open>SETTINGS_NAME_SEPARATOR\<close>; \<^verbatim>\<open>next\<close> points behind it). With NUL for
  the terminating character, the routine is
  \<^verbatim>\<open>
  *next = NULL;
  while (*key != NUL && *key == *name && *name != NUL && *name != SETTINGS_NAME_END) {
      key++; name++;
  }
  if (*key != NUL) return 0;
  if (*name == SETTINGS_NAME_SEPARATOR) { *next = name + 1; return 1; }
  if (*name == SETTINGS_NAME_END || *name == NUL) return 1;
  return 0;
  \<close>
  A string is the list of its characters before the terminating NUL; the result is the
  return value (non-zero as \<open>True\<close>) and \<^verbatim>\<open>next\<close>. The callback is given a
  string and the key is a literal, so the routine's checks for null pointers are left
  out.
\<close>

definition SETTINGS_NAME_SEPARATOR :: char where
  "SETTINGS_NAME_SEPARATOR = CHR ''/''"

definition SETTINGS_NAME_END :: char where
  "SETTINGS_NAME_END = CHR ''=''"

fun settings_name_steq :: "string \<Rightarrow> string \<Rightarrow> bool \<times> string option" where
  "settings_name_steq [] [] = (True, None)"
| "settings_name_steq (c # name) [] =
     (if c = SETTINGS_NAME_SEPARATOR then (True, Some name)
      else if c = SETTINGS_NAME_END \<or> c = CHR 0x00 then (True, None)
      else (False, None))"
| "settings_name_steq [] (k # key) = (False, None)"
| "settings_name_steq (c # name) (k # key) =
     (if k = c \<and> c \<noteq> CHR 0x00 \<and> c \<noteq> SETTINGS_NAME_END
      then settings_name_steq name key else (False, None))"

text \<open>
  The assignment \<^verbatim>\<open>general_page_items[0].item.slider.inital_val = v\<close>. The first
  item of the static table is a slider and nothing in the file changes the kind of an
  item, so the write always meets the member \<^verbatim>\<open>slider\<close>.
\<close>

definition set_slider_inital_val :: "int32_t \<Rightarrow> lv_settings_item_t \<Rightarrow> lv_settings_item_t" where
  "set_slider_inital_val v it =
    (case item it of
       Slider s \<Rightarrow> it\<lparr>item := Slider (s\<lparr>slider_inital_val := v\<rparr>)\<rparr>
     | Sw w \<Rightarrow> it
     | Btn b \<Rightarrow> it)"

definition set_brightness_inital_val :: "int32_t \<Rightarrow> settings_app \<Rightarrow> settings_app" where
  "set_brightness_inital_val v st =
    (case general_page_items st of
       [] \<Rightarrow> st
     | it # rest \<Rightarrow> st\<lparr>general_page_items := set_slider_inital_val v it # rest\<rparr>)"

text \<open>
  Lines 216 to 241. \<open>read_cb\<close> is the store's reader: given the content of the buffer
  \<^verbatim>\<open>bri\<close> before the call and the number of bytes asked for, it gives the return
  value and the content of the buffer after the call (a reader that writes nothing
  gives the buffer back). \<open>bri0\<close> is the content of the local \<^verbatim>\<open>bri\<close>, which the
  source does not initialise, at the call of the reader.
\<close>

type_synonym settings_read_cb = "int32_t \<Rightarrow> nat \<Rightarrow> int \<times> int32_t"

definition settings_load_cb ::
  "string \<Rightarrow> nat \<Rightarrow> settings_read_cb \<Rightarrow> int32_t \<Rightarrow> settings_app \<Rightarrow> int \<times> settings_app" where
  "settings_load_cb name len read_cb bri0 st =
    (case settings_name_steq name ''brightness'' of
       (matched, next) \<Rightarrow>
         if matched \<and> next = None then
           if len \<noteq> 4 then (- EINVAL, st)
           else
             (case read_cb bri0 4 of
                (rc, bri) \<Rightarrow>
                  let st1 = do_call (Printk (''Read br: %d'' @ [CHR 0x0A]) [bri]) st;
                      st2 = set_brightness_inital_val (c_div bri 10) st1;
                      st3 = do_call (Display_control_set_brightness bri) st2
                  in if 0 \<le> rc then (0, st3) else (rc, st3))
         else (- ENOENT, st))"

text \<open>The initial value of the brightness slider, when the first general item is a slider.\<close>

definition brightness_inital_val :: "settings_app \<Rightarrow> int32_t option" where
  "brightness_inital_val st =
    (case general_page_items st of
       [] \<Rightarrow> None
     | it # rest \<Rightarrow> (case item it of Slider s \<Rightarrow> Some (slider_inital_val s) | _ \<Rightarrow> None))"

subsection \<open>Readers, names and frames used in the properties\<close>

text \<open>
  Two readers of the store: one over a stored record of four bytes, which fills the
  buffer with the stored integer and returns the number of bytes read, and one that
  fails with a negative error code and leaves the buffer as it was.
\<close>

definition stored_record :: "int32_t \<Rightarrow> settings_read_cb" where
  "stored_record s buf n = (int n, s)"

definition failed_read :: "int \<Rightarrow> settings_read_cb" where
  "failed_read e buf n = (e, buf)"

text \<open>
  The part of a name before its end, which \<^verbatim>\<open>settings_name_steq\<close> takes to be
  the first \<^verbatim>\<open>=\<close> or the terminating NUL.
\<close>

definition name_before_end :: "string \<Rightarrow> string" where
  "name_before_end name = takeWhile (\<lambda>c. c \<noteq> SETTINGS_NAME_END \<and> c \<noteq> CHR 0x00) name"

fun is_save :: "call \<Rightarrow> bool" where
  "is_save (Settings_save_one key v n) = True"
| "is_save c = False"

text \<open>
  Two item descriptors that agree in every field except, for a slider, the initial
  value.
\<close>

definition same_but_inital_val :: "lv_settings_item_t \<Rightarrow> lv_settings_item_t \<Rightarrow> bool" where
  "same_but_inital_val a b =
    (item_type a = item_type b \<and> icon a = icon b \<and> change_callback a = change_callback b \<and>
     (case (item a, item b) of
        (Slider s, Slider t) \<Rightarrow>
          slider_name s = slider_name t \<and> slider_min_val s = slider_min_val t \<and>
          slider_max_val s = slider_max_val t
      | (x, y) \<Rightarrow> x = y))"

section \<open>Properties\<close>

subsection \<open>Helper facts\<close>

lemma steq_brightness: "settings_name_steq ''brightness'' ''brightness'' = (True, None)"
  by (simp add: SETTINGS_NAME_END_def)

lemma steq_matches_iff:
  "settings_name_steq name key = (True, None) \<longleftrightarrow> name_before_end name = key"
  unfolding name_before_end_def
  by (induction name key rule: settings_name_steq.induct)
     (auto simp: SETTINGS_NAME_END_def SETTINGS_NAME_SEPARATOR_def)

lemma sdiv_times_10: "(k * 10) sdiv 10 = (k::int)"
  by (simp add: signed_divide_int_def abs_mult sgn_mult mult_sgn_abs)

lemma sint_times_10:
  assumes "- 214748364 \<le> sint (v::int32_t)" "sint v \<le> 214748364"
  shows "sint (v * 10) = sint v * 10"
proof -
  have "sint (v * 10) = signed_take_bit 31 (sint v * sint (10::int32_t))"
    by (simp add: sint_word_ariths)
  also have "sint (10::int32_t) = 10"
    by simp
  also have "signed_take_bit 31 (sint v * 10) = sint v * 10"
    using assms by (intro signed_take_bit_int_eq_self) auto
  finally show ?thesis .
qed

lemma c_div_times_10:
  assumes "- 214748364 \<le> sint (v::int32_t)" "sint v \<le> 214748364"
  shows "c_div (v * 10) 10 = v"
  using sint_times_10 [OF assms] by (simp add: c_div_def sdiv_times_10)

lemma on_brightness_changed_calls:
  "on_brightness_changed val final st =
     st\<lparr>calls := calls st @ [Display_control_set_brightness (slider val * 10),
                              Settings_save_one ''settings/brightness'' (slider val * 10) 4]\<rparr>"
  by (simp add: on_brightness_changed_def do_call_def)

lemma load_recognised_len4:
  assumes "settings_name_steq name ''brightness'' = (True, None)"
  shows "settings_load_cb name 4 read_cb bri0 st =
     (let rc = fst (read_cb bri0 4); bri = snd (read_cb bri0 4);
          st3 = do_call (Display_control_set_brightness bri)
                  (set_brightness_inital_val (c_div bri 10)
                    (do_call (Printk (''Read br: %d'' @ [CHR 0x0A]) [bri]) st))
      in (if 0 \<le> rc then 0 else rc, st3))"
  unfolding settings_load_cb_def assms
  by (simp add: Let_def split: prod.splits)

lemma steq_brightness_end: "settings_name_steq ''brightness='' ''brightness'' = (True, None)"
  by (simp add: SETTINGS_NAME_END_def SETTINGS_NAME_SEPARATOR_def)

lemma calls_set_brightness_inital_val [simp]:
  "calls (set_brightness_inital_val v st) = calls st"
  by (simp add: set_brightness_inital_val_def split: list.splits)

lemma brightness_inital_val_set:
  "brightness_inital_val st \<noteq> None \<Longrightarrow>
   brightness_inital_val (set_brightness_inital_val v st) = Some v"
  by (auto simp: brightness_inital_val_def set_brightness_inital_val_def
        set_slider_inital_val_def split: list.splits item_union.splits)

lemma brightness_inital_val_do_call [simp]:
  "brightness_inital_val (do_call c st) = brightness_inital_val st"
  by (simp add: brightness_inital_val_def do_call_def)

lemma same_but_inital_val_set: "same_but_inital_val (set_slider_inital_val v it) it"
  by (simp add: same_but_inital_val_def set_slider_inital_val_def split: item_union.splits)

lemma same_but_inital_val_refl: "same_but_inital_val it it"
  by (simp add: same_but_inital_val_def split: item_union.splits)

lemma frame_set_brightness_inital_val:
  "bluetooth_page_items (set_brightness_inital_val v st) = bluetooth_page_items st \<and>
   settings_menu (set_brightness_inital_val v st) = settings_menu st \<and>
   length (general_page_items (set_brightness_inital_val v st)) = length (general_page_items st) \<and>
   tl (general_page_items (set_brightness_inital_val v st)) = tl (general_page_items st) \<and>
   list_all2 same_but_inital_val
     (take 1 (general_page_items (set_brightness_inital_val v st)))
     (take 1 (general_page_items st))"
  by (simp add: set_brightness_inital_val_def same_but_inital_val_set split: list.splits)

lemma load_keeps_slider:
  assumes "brightness_inital_val st \<noteq> None"
  shows "brightness_inital_val (snd (settings_load_cb name len read_cb bri0 st)) \<noteq> None"
proof -
  have "brightness_inital_val (set_brightness_inital_val v (do_call c st)) \<noteq> None" for v c
    using assms brightness_inital_val_set [of "do_call c st" v] by simp
  then show ?thesis
    using assms by (auto simp: settings_load_cb_def Let_def split: prod.splits)
qed

lemma load_reports_failed_read:
  assumes "read_cb bri0 4 = (rc, bri)" and "rc < 0"
  shows "fst (settings_load_cb ''brightness'' 4 read_cb bri0 st) = rc"
  using assms by (simp add: load_recognised_len4 [OF steq_brightness] Let_def)

lemma init_brightness_inital_val: "brightness_inital_val settings_app_init = Some 3"
  by (simp add: brightness_inital_val_def settings_app_init_def general_page_items_init_def)

subsection \<open>The load callback\<close>

text \<open>
  C4: a call of the load callback with the name \<^verbatim>\<open>brightness\<close> and a length other
  than 4, the size of a 32-bit integer, returns \<^verbatim>\<open>-EINVAL\<close> and changes nothing:
  no call to the display (or to anything else) is made and the descriptor, with the
  slider's initial value, is as before.
\<close>

theorem load_wrong_length:
  assumes "len \<noteq> 4"
  shows "settings_load_cb ''brightness'' len read_cb bri0 st = (- EINVAL, st)"
  using assms unfolding settings_load_cb_def steq_brightness by simp

theorem load_wrong_length_witness:
  "(3::nat) \<noteq> 4 \<and>
   settings_load_cb ''brightness'' 3 (stored_record 70) 0 settings_app_init
     = (- 22, settings_app_init)"
  using load_wrong_length [of 3 "stored_record 70" 0 settings_app_init]
  by (simp add: EINVAL_def)

text \<open>
  C5, as amended: a call of the load callback with a name whose part before the end
  of the name (the first \<^verbatim>\<open>=\<close>, or the end of the string) is not exactly
  \<^verbatim>\<open>brightness\<close> returns \<^verbatim>\<open>-ENOENT\<close> and changes nothing: no call is made
  and the descriptor is as before.
\<close>

theorem load_unknown_name:
  assumes "name_before_end name \<noteq> ''brightness''"
  shows "settings_load_cb name len read_cb bri0 st = (- ENOENT, st)"
proof -
  from assms have "settings_name_steq name ''brightness'' \<noteq> (True, None)"
    by (simp add: steq_matches_iff)
  then show ?thesis
    unfolding settings_load_cb_def by (auto split: prod.splits)
qed

theorem load_unknown_name_witness:
  "name_before_end ''brightness/max'' \<noteq> ''brightness'' \<and>
   settings_load_cb ''brightness/max'' 4 (stored_record 70) 0 settings_app_init
     = (- 2, settings_app_init)"
proof -
  have h: "name_before_end ''brightness/max'' \<noteq> ''brightness''"
    by (simp add: name_before_end_def SETTINGS_NAME_END_def)
  show ?thesis
    using h load_unknown_name [OF h, of 4 "stored_record 70" 0 settings_app_init]
    by (simp add: ENOENT_def)
qed

text \<open>
  C5, as stated, fails: the name \<^verbatim>\<open>brightness=\<close> is not the string
  \<^verbatim>\<open>brightness\<close>, yet \<^verbatim>\<open>settings_name_steq\<close> takes the \<^verbatim>\<open>=\<close> for the end
  of the name, the record is loaded, the callback returns 0 and the display is set.
\<close>

theorem load_name_with_end_counterexample:
  "''brightness='' \<noteq> ''brightness'' \<and>
   settings_load_cb ''brightness='' 4 (stored_record 70) 0 settings_app_init
     \<noteq> (- ENOENT, settings_app_init) \<and>
   fst (settings_load_cb ''brightness='' 4 (stored_record 70) 0 settings_app_init) = 0 \<and>
   calls (snd (settings_load_cb ''brightness='' 4 (stored_record 70) 0 settings_app_init))
     = [Printk (''Read br: %d'' @ [CHR 0x0A]) [70], Display_control_set_brightness 70]"
  by (simp add: load_recognised_len4 [OF steq_brightness_end] stored_record_def Let_def
        do_call_def settings_app_init_def ENOENT_def)

text \<open>
  C2, evaluated where the code departs from it: the name is \<^verbatim>\<open>brightness\<close>, the
  length is 4, and the reader fails with -5 without writing to the buffer, which held 0.
  The callback returns -5 to the host, as the claim says, but only after it has
  written 0 over the slider's initial value (3 in the static table) and has called the
  display with the content of the buffer.
\<close>

theorem load_failed_read_overwrites:
  "fst (settings_load_cb ''brightness'' 4 (failed_read (- 5)) 0 settings_app_init) = - 5 \<and>
   brightness_inital_val settings_app_init = Some 3 \<and>
   brightness_inital_val
     (snd (settings_load_cb ''brightness'' 4 (failed_read (- 5)) 0 settings_app_init)) = Some 0 \<and>
   calls (snd (settings_load_cb ''brightness'' 4 (failed_read (- 5)) 0 settings_app_init))
     = [Printk (''Read br: %d'' @ [CHR 0x0A]) [0], Display_control_set_brightness 0]"
proof -
  have "c_div 0 10 = (0::int32_t)"
    by (simp add: c_div_def)
  then show ?thesis
    by (simp add: load_recognised_len4 [OF steq_brightness] failed_read_def Let_def
          init_brightness_inital_val brightness_inital_val_set)
       (simp add: do_call_def settings_app_init_def)
qed

text \<open>
  C10: whatever the name, the length and the outcome of the read, the load callback
  leaves the Bluetooth items and the page table as they were, keeps the number of
  general items and every general item but the first, and changes in the first general
  item at most the slider's initial value: its type, icon, callback, name and bounds
  are as before.
\<close>

theorem load_frame:
  "bluetooth_page_items (snd (settings_load_cb name len read_cb bri0 st)) = bluetooth_page_items st \<and>
   settings_menu (snd (settings_load_cb name len read_cb bri0 st)) = settings_menu st \<and>
   length (general_page_items (snd (settings_load_cb name len read_cb bri0 st)))
     = length (general_page_items st) \<and>
   tl (general_page_items (snd (settings_load_cb name len read_cb bri0 st)))
     = tl (general_page_items st) \<and>
   list_all2 same_but_inital_val
     (take 1 (general_page_items (snd (settings_load_cb name len read_cb bri0 st))))
     (take 1 (general_page_items st))"
proof -
  obtain m nx where steq: "settings_name_steq name ''brightness'' = (m, nx)"
    by (cases "settings_name_steq name ''brightness''")
  obtain rc bri where rd: "read_cb bri0 4 = (rc, bri)"
    by (cases "read_cb bri0 4")
  show ?thesis
  proof (cases "m \<and> nx = None \<and> len = 4")
    case True
    let ?st1 = "do_call (Printk (''Read br: %d'' @ [CHR 0x0A]) [bri]) st"
    have "snd (settings_load_cb name len read_cb bri0 st)
            = do_call (Display_control_set_brightness bri)
                (set_brightness_inital_val (c_div bri 10) ?st1)"
      using True steq rd by (simp add: settings_load_cb_def Let_def)
    moreover have "general_page_items ?st1 = general_page_items st"
      "bluetooth_page_items ?st1 = bluetooth_page_items st"
      "settings_menu ?st1 = settings_menu st"
      by (simp_all add: do_call_def)
    ultimately show ?thesis
      using frame_set_brightness_inital_val [of "c_div bri 10" ?st1]
      by (simp add: do_call_def)
  next
    case False
    then have "snd (settings_load_cb name len read_cb bri0 st) = st"
      using steq by (auto simp: settings_load_cb_def)
    then show ?thesis
      by (simp add: list_all2_same same_but_inital_val_refl)
  qed
qed

text \<open>
  C3: the round trip of the brightness. A committed slider value \<open>v\<close> whose product
  with ten fits 32 bits (every value of the slider's range 1 to 10 does) is passed to
  the display and saved under \<^verbatim>\<open>settings/brightness\<close> as \<open>s = v * 10\<close>; when the
  load callback is then called for the record \<^verbatim>\<open>brightness\<close> of length 4 and the
  reader delivers \<open>s\<close>, it returns 0, calls the display with \<open>s\<close> and sets the initial
  value of the brightness slider to \<open>s / 10\<close>, which is \<open>v\<close>.
\<close>

theorem brightness_round_trip:
  assumes "- 214748364 \<le> sint (slider val)" and "sint (slider val) \<le> 214748364"
    and "read_cb bri0 4 = (rc, slider val * 10)" and "0 \<le> rc"
    and "brightness_inital_val st \<noteq> None"
  shows "calls (on_brightness_changed val True st0)
           = calls st0 @ [Display_control_set_brightness (slider val * 10),
                          Settings_save_one ''settings/brightness'' (slider val * 10) 4] \<and>
         fst (settings_load_cb ''brightness'' 4 read_cb bri0 st) = 0 \<and>
         calls (snd (settings_load_cb ''brightness'' 4 read_cb bri0 st))
           = calls st @ [Printk (''Read br: %d'' @ [CHR 0x0A]) [slider val * 10],
                         Display_control_set_brightness (slider val * 10)] \<and>
         brightness_inital_val (snd (settings_load_cb ''brightness'' 4 read_cb bri0 st))
           = Some (c_div (slider val * 10) 10) \<and>
         c_div (slider val * 10) 10 = slider val"
proof -
  have save: "calls (on_brightness_changed val True st0)
           = calls st0 @ [Display_control_set_brightness (slider val * 10),
                          Settings_save_one ''settings/brightness'' (slider val * 10) 4]"
    by (simp add: on_brightness_changed_calls)
  have quot: "c_div (slider val * 10) 10 = slider val"
    using assms(1,2) by (rule c_div_times_10)
  let ?st1 = "do_call (Printk (''Read br: %d'' @ [CHR 0x0A]) [slider val * 10]) st"
  have load: "settings_load_cb ''brightness'' 4 read_cb bri0 st
      = (0, do_call (Display_control_set_brightness (slider val * 10))
              (set_brightness_inital_val (c_div (slider val * 10) 10) ?st1))"
    using assms(3,4) by (simp add: load_recognised_len4 [OF steq_brightness] Let_def)
  have "brightness_inital_val ?st1 \<noteq> None"
    using assms(5) by simp
  then have ini: "brightness_inital_val (set_brightness_inital_val (c_div (slider val * 10) 10) ?st1)
      = Some (c_div (slider val * 10) 10)"
    by (rule brightness_inital_val_set)
  have cl: "calls (snd (settings_load_cb ''brightness'' 4 read_cb bri0 st))
           = calls st @ [Printk (''Read br: %d'' @ [CHR 0x0A]) [slider val * 10],
                         Display_control_set_brightness (slider val * 10)]"
    unfolding load by (simp add: do_call_def)
  have iv: "brightness_inital_val (snd (settings_load_cb ''brightness'' 4 read_cb bri0 st))
           = Some (c_div (slider val * 10) 10)"
    unfolding load using ini by simp
  show ?thesis
    using save quot cl iv by (simp add: load)
qed

theorem brightness_round_trip_witness:
  "- 214748364 \<le> sint (7::int32_t) \<and> sint (7::int32_t) \<le> 214748364 \<and>
   stored_record 70 0 4 = (4, 7 * 10) \<and> (0::int) \<le> 4 \<and>
   brightness_inital_val settings_app_init \<noteq> None \<and>
   calls (on_brightness_changed \<lparr>slider = 7, sw = False\<rparr> True settings_app_init)
     = [Display_control_set_brightness 70, Settings_save_one ''settings/brightness'' 70 4] \<and>
   fst (settings_load_cb ''brightness'' 4 (stored_record 70) 0 settings_app_init) = 0 \<and>
   calls (snd (settings_load_cb ''brightness'' 4 (stored_record 70) 0 settings_app_init))
     = [Printk (''Read br: %d'' @ [CHR 0x0A]) [70], Display_control_set_brightness 70] \<and>
   brightness_inital_val
     (snd (settings_load_cb ''brightness'' 4 (stored_record 70) 0 settings_app_init)) = Some 7"
proof -
  have h1: "- 214748364 \<le> sint (slider \<lparr>slider = 7, sw = False\<rparr>)"
    by simp
  have h2: "sint (slider \<lparr>slider = 7, sw = False\<rparr>) \<le> 214748364"
    by simp
  have h3: "stored_record 70 0 4 = (4, slider \<lparr>slider = 7, sw = False\<rparr> * 10)"
    by (simp add: stored_record_def)
  have h4: "(0::int) \<le> 4"
    by simp
  have h5: "brightness_inital_val settings_app_init \<noteq> None"
    by (simp add: init_brightness_inital_val)
  have c: "calls settings_app_init = []"
    by (simp add: settings_app_init_def)
  show ?thesis
    using h1 h3 h5
      brightness_round_trip [where val = "\<lparr>slider = 7, sw = False\<rparr>"
        and read_cb = "stored_record 70" and ?bri0.0 = 0 and rc = 4
        and st = settings_app_init and ?st0.0 = settings_app_init, OF h1 h2 h3 h4 h5]
    by (simp add: c)
qed

subsection \<open>The change handlers\<close>

text \<open>
  C1, evaluated where the code departs from it: a drag event of the brightness slider
  with the value 4 and \<^verbatim>\<open>final = false\<close>, on the static tables with no call made
  yet. The display is set to 40, as the claim says, and 40 is also saved under
  \<^verbatim>\<open>settings/brightness\<close> with length 4, although the event is not final.
\<close>

theorem brightness_saved_when_not_final:
  "calls (on_brightness_changed \<lparr>slider = 4, sw = False\<rparr> False settings_app_init)
     = [Display_control_set_brightness 40, Settings_save_one ''settings/brightness'' 40 4]"
  by (simp add: on_brightness_changed_calls settings_app_init_def)

text \<open>
  C6: the handler of the clear-bonded-peers button calls \<^verbatim>\<open>bt_unpair\<close> for the
  default identity (and the null address) once when \<^verbatim>\<open>final\<close> is true and not at
  all when it is false; when the call returns a non-zero error, the failure is logged
  and nothing else happens. The descriptor is never touched.
\<close>

theorem clear_bonded_calls:
  "on_clear_bonded_changed bt_unpair val final st =
     (if final
      then st\<lparr>calls := calls st @
             (if bt_unpair BT_ID_DEFAULT None \<noteq> 0
              then [Bt_unpair BT_ID_DEFAULT None, Printk ''Cannot unpair for default ID'' []]
              else [Bt_unpair BT_ID_DEFAULT None])\<rparr>
      else st)"
  by (simp add: on_clear_bonded_changed_def do_call_def Let_def)

text \<open>
  C7: the handler of the reset-step-counter button calls
  \<^verbatim>\<open>zsw_imu_reset_step_count\<close> exactly when \<^verbatim>\<open>final\<close> is true, and does nothing
  when it is false.
\<close>

theorem reset_steps_calls:
  "on_reset_steps_changed val final st =
     (if final then st\<lparr>calls := calls st @ [Zsw_imu_reset_step_count]\<rparr> else st)"
  by (simp add: on_reset_steps_changed_def do_call_def)

text \<open>
  C8: on every event of the AoA switch the handler makes one call,
  \<^verbatim>\<open>bleAoaAdvertise\<close> with interval 100, window 100 and the enable argument 1 when
  the switch is on and 0 when it is off, and does nothing else.
\<close>

theorem aoa_enable_calls:
  "on_aoa_enable_changed val final st =
     st\<lparr>calls := calls st @ [BleAoaAdvertise 100 100 (if sw val then 1 else 0)]\<rparr>"
  by (simp add: on_aoa_enable_changed_def do_call_def)

text \<open>
  C9: on every event of the Pairable switch the handler makes one call,
  \<^verbatim>\<open>ble_comm_set_pairable\<close> with the switch's new value, and the saves among the
  calls are the ones made before: the handler saves nothing.
\<close>

theorem pairing_enable_calls:
  "on_pairing_enable_changed val final st =
     st\<lparr>calls := calls st @ [Ble_comm_set_pairable (sw val)]\<rparr> \<and>
   filter is_save (calls (on_pairing_enable_changed val final st)) = filter is_save (calls st)"
  by (simp add: on_pairing_enable_changed_def do_call_def)

end
